theory Spec2Isabelle
  imports Main "HOL-Library.AList" "HOL-Library.Sublist" "HOL-Library.Multiset"
begin

section \<open>Common values\<close>

text \<open>
  Python strings are modelled as \<open>string\<close>. An optional string (\<open>str | None\<close>) is a
  \<open>string option\<close>. Exceptions are values of the type \<open>error\<close>; a function that may raise
  returns \<open>error + 'a\<close>, with \<open>Inl\<close> for the exception.
\<close>

datatype error =
    ValueError string
  | TypeError string
  | ValidationError
  | IntegrityError
  | InvalidRequestError
  | OperationalError
  | OverflowError

text \<open>\<open>sep.join(xs)\<close> of Python.\<close>

fun join :: "string \<Rightarrow> string list \<Rightarrow> string" where
  "join sep [] = []"
| "join sep [x] = x"
| "join sep (x # y # ys) = x @ sep @ join sep (y # ys)"

text \<open>
  \<open>str.lower()\<close>. A \<open>char\<close> is a byte: the letters \<open>A\<close> to \<open>Z\<close> are mapped to
  \<open>a\<close> to \<open>z\<close> and every other byte is kept. The source only compares the lowered
  selector with the ASCII literals \<open>sqlite\<close>, \<open>postgres\<close> and \<open>mysql\<close>.
\<close>

definition lower_char :: "char \<Rightarrow> char" where
  "lower_char c =
     (case map_of (zip ''ABCDEFGHIJKLMNOPQRSTUVWXYZ'' ''abcdefghijklmnopqrstuvwxyz'') c of
        Some d \<Rightarrow> d
      | None \<Rightarrow> c)"

definition lower :: "string \<Rightarrow> string" where
  "lower s = map lower_char s"

text \<open>
  What an f-string writes for a value of type \<open>str | None\<close>: the string itself, or the
  text \<open>None\<close>.
\<close>

fun fmt :: "string option \<Rightarrow> string" where
  "fmt None = ''None''"
| "fmt (Some s) = s"

section \<open>The connection provider (\<open>pysql/connection/sql_connection.py\<close>)\<close>

text \<open>The process environment, as \<open>os.getenv\<close> reads it.\<close>

type_synonym environ = "string \<Rightarrow> string option"

record SQLConnection =
  url :: "string option"
  user_db :: "string option"
  pass_db :: "string option"
  host_db :: "string option"
  port_db :: "string option"
  name_db :: "string option"
  sgdb :: "string option"

text \<open>\<open>SQLConnection.__init__\<close>: the seven values are read here and nowhere else.\<close>

definition SQLConnection_init :: "environ \<Rightarrow> SQLConnection" where
  "SQLConnection_init getenv =
     \<lparr> url = getenv ''URL'',
       user_db = getenv ''USER_DB'',
       pass_db = getenv ''PASS_DB'',
       host_db = getenv ''HOST_DB'',
       port_db = getenv ''PORT_DB'',
       name_db = getenv ''NAME_DB'',
       sgdb = getenv ''SGDB'' \<rparr>"

text \<open>The list comprehension of \<open>get_engine\<close> that collects the missing variables.\<close>

definition missing_vars :: "SQLConnection \<Rightarrow> string list" where
  "missing_vars self =
     [var_name. (var_name, value) \<leftarrow>
        [(''USER_DB'', user_db self),
         (''PASS_DB'', pass_db self),
         (''HOST_DB'', host_db self),
         (''PORT_DB'', port_db self),
         (''NAME_DB'', name_db self)],
      value = None]"

text \<open>
  The first part of \<open>get_engine\<close>: the value of the local variable \<open>database_url\<close>, or
  the \<open>ValueError\<close> raised before it is assigned.
\<close>

definition database_url :: "SQLConnection \<Rightarrow> error + string" where
  "database_url self =
     (case url self of
        Some u \<Rightarrow> Inr u
      | None \<Rightarrow>
          if missing_vars self \<noteq> [] then
            Inl (ValueError
              (''Database connection parameters not set in environment variables: ''
                 @ join '', '' (missing_vars self)))
          else
            (case sgdb self of
               None \<Rightarrow> Inl (ValueError ''SGDB is not set in environment variables.'')
             | Some s \<Rightarrow>
                 if lower s = ''sqlite'' then
                   Inr (''sqlite:///'' @ fmt (name_db self) @ ''.db'')
                 else if lower s = ''postgres'' then
                   Inr (''postgresql://'' @ fmt (user_db self) @ '':'' @ fmt (pass_db self)
                          @ ''@'' @ fmt (host_db self) @ '':'' @ fmt (port_db self)
                          @ ''/'' @ fmt (name_db self))
                 else if lower s = ''mysql'' then
                   Inr (''mysql+mysqlconnector://'' @ fmt (user_db self) @ '':''
                          @ fmt (pass_db self) @ ''@'' @ fmt (host_db self) @ '':''
                          @ fmt (port_db self) @ ''/'' @ fmt (name_db self))
                 else
                   Inl (ValueError (''Unsupported SGDB: '' @ s))))"

text \<open>
  \<open>get_engine\<close>. The library function \<open>create_engine\<close> (sqlmodel) is a parameter: it
  receives the target string and the \<open>echo\<close> flag and gives a handle, or raises an
  exception of its own.
\<close>

definition get_engine ::
  "(string \<Rightarrow> bool \<Rightarrow> error + 'e) \<Rightarrow> SQLConnection \<Rightarrow> bool \<Rightarrow> error + 'e" where
  "get_engine create_engine self view_logs =
     (case database_url self of
        Inl e \<Rightarrow> Inl e
      | Inr target \<Rightarrow> create_engine target view_logs)"

text \<open>
  A process as far as the connection provider sees it: the environment, which any code
  may change with \<open>os.environ[k] = v\<close> or \<open>del os.environ[k]\<close>, and one constructed
  instance. \<open>run\<close> gives the outcomes of the \<open>get_engine\<close> calls of a sequence of actions.
\<close>

datatype action = Putenv string "string option" | Get_engine bool

record process =
  os_environ :: environ
  connection :: SQLConnection

fun run ::
  "(string \<Rightarrow> bool \<Rightarrow> error + 'e) \<Rightarrow> process \<Rightarrow> action list \<Rightarrow> (error + 'e) list" where
  "run create_engine p [] = []"
| "run create_engine p (Putenv k v # acts) =
     run create_engine (p\<lparr>os_environ := (os_environ p)(k := v)\<rparr>) acts"
| "run create_engine p (Get_engine view_logs # acts) =
     get_engine create_engine (connection p) view_logs # run create_engine p acts"

text \<open>
  The engine kinds and connection targets in the words of the specification: the closed
  set of kinds, the selector value of each, and the template of each target. The driver
  of the \<open>mysql\<close> template is left open by the specification and is a parameter here.
\<close>

datatype engine_kind = Sqlite | Postgres | Mysql

fun selector_name :: "engine_kind \<Rightarrow> string" where
  "selector_name Sqlite = ''sqlite''"
| "selector_name Postgres = ''postgres''"
| "selector_name Mysql = ''mysql''"

fun spec_target ::
  "string \<Rightarrow> engine_kind \<Rightarrow> string \<Rightarrow> string \<Rightarrow> string \<Rightarrow> string \<Rightarrow> string \<Rightarrow> string" where
  "spec_target driver Sqlite u p h pt n = ''sqlite:///'' @ n @ ''.db''"
| "spec_target driver Postgres u p h pt n =
     ''postgresql://'' @ u @ '':'' @ p @ ''@'' @ h @ '':'' @ pt @ ''/'' @ n"
| "spec_target driver Mysql u p h pt n =
     ''mysql+'' @ driver @ ''://'' @ u @ '':'' @ p @ ''@'' @ h @ '':'' @ pt @ ''/'' @ n"

section \<open>The generic repository (\<open>pysql/model/base_model_dao.py\<close>)\<close>

subsection \<open>Classes and the constructor\<close>

text \<open>
  What \<open>__init__\<close> sees of the class of the instance: its name and the value of
  \<open>getattr(cls, "__orig_bases__", [])\<close>, a sequence of bases, which is empty when the
  attribute is missing. A base is a plain class,
  for which \<open>get_origin\<close> gives \<open>None\<close> and \<open>get_args\<close> the empty tuple, or a
  parameterised generic with its origin and its type arguments. \<open>'c\<close> is the type of
  the type arguments.
\<close>

datatype origin = BaseModelDAO | Generic | OtherGeneric string

datatype 'c base = PlainClass string | Alias origin "'c list"

fun get_origin :: "'c base \<Rightarrow> origin option" where
  "get_origin (PlainClass _) = None"
| "get_origin (Alias g _) = Some g"

fun get_args :: "'c base \<Rightarrow> 'c list" where
  "get_args (PlainClass _) = []"
| "get_args (Alias _ args) = args"

record 'c pyclass =
  class_name :: string
  orig_bases :: "'c base list"

record 'c dao =
  model :: 'c
  sql_connection :: SQLConnection

text \<open>
  The \<open>for ... else\<close> loop of \<open>__init__\<close>: the first base whose origin is
  \<open>BaseModelDAO\<close> decides; the \<open>else\<close> branch runs when the loop ends without \<open>break\<close>.
\<close>

fun find_model :: "string \<Rightarrow> 'c base list \<Rightarrow> error + 'c" where
  "find_model name [] = Inl (TypeError (''Could not determine ModelType for '' @ name))"
| "find_model name (base # bases) =
     (if get_origin base = Some BaseModelDAO then
        (let args = get_args base
         in if length args \<noteq> 3 then Inl (TypeError ''BaseModelDAO requires 3 type arguments'')
            else Inr (args ! 0))
      else find_model name bases)"

definition BaseModelDAO_init :: "'c pyclass \<Rightarrow> environ \<Rightarrow> error + 'c dao" where
  "BaseModelDAO_init cls getenv =
     (case find_model (class_name cls) (orig_bases cls) of
        Inl e \<Rightarrow> Inl e
      | Inr m \<Rightarrow> Inr \<lparr> model = m, sql_connection = SQLConnection_init getenv \<rparr>)"

subsection \<open>Entities, payloads and the store\<close>

text \<open>
  The repository works through the library (sqlmodel, pydantic, SQLAlchemy) on a
  relational store. What the library and the store decide by themselves is a parameter
  of the model: the validation of a payload, the constraints that the store and its
  driver enforce besides the primary key, the key that the store assigns, and the order
  in which the store lists rows. An object is seen as the dictionary of its attributes.
  A payload object carries, besides its attributes, the set of fields that were set
  explicitly (\<open>model_fields_set\<close> of pydantic); a field left unset still has an
  attribute, holding its default.
\<close>

type_synonym field = string

datatype val = VNone | VInt int | VStr string | VBool bool | VUuid string

type_synonym row = "(field \<times> val) list"

record payload =
  attrs :: "(field \<times> val) list"
  fields_set :: "field list"

text \<open>A table model class, the Entity shape: its table and its primary-key field.\<close>

record sqlmodel =
  tablename :: string
  primary_key :: field

text \<open>\<open>obj.model_dump(exclude_unset=True)\<close>: the attributes that were set explicitly.\<close>

definition model_dump_exclude_unset :: "payload \<Rightarrow> (field \<times> val) list" where
  "model_dump_exclude_unset obj = [(f, v) \<leftarrow> attrs obj. f \<in> set (fields_set obj)]"

text \<open>
  The loop \<open>for key, value in update_data.items(): setattr(db_obj, key, value)\<close>.
\<close>

fun setattrs :: "row \<Rightarrow> (field \<times> val) list \<Rightarrow> row" where
  "setattrs db_obj [] = db_obj"
| "setattrs db_obj ((key, value) # items) = setattrs (AList.update key value db_obj) items"

text \<open>
  The store: for every table that exists its rows, in the order of their insertion; a
  table that was never created is \<open>None\<close>, and a statement on it raises
  \<open>OperationalError\<close>. The primary key is a constraint of every table: its values are
  pairwise different and none is null. The other constraints of the store and of its
  driver (a column that must not be null, a unique column, the range of an integer) are
  the parameter \<open>store_check\<close>: given the model and the rows that a commit would leave,
  it is the exception that the commit raises, if any. A commit that raises changes
  nothing.
\<close>

type_synonym database = "string \<Rightarrow> row list option"

definition row_key :: "sqlmodel \<Rightarrow> row \<Rightarrow> val option" where
  "row_key M r = map_of r (primary_key M)"

definition pk_constraint :: "sqlmodel \<Rightarrow> row list \<Rightarrow> bool" where
  "pk_constraint M tbl =
     (distinct (map (row_key M) tbl)
        \<and> list_all (\<lambda>r. row_key M r \<noteq> None \<and> row_key M r \<noteq> Some VNone) tbl)"

text \<open>
  \<open>session.exec(select(M)).all()\<close>: the rows in the order in which the store lists
  them. The statement has no \<open>ORDER BY\<close>; the order of the store is the parameter
  \<open>rank\<close>: rows are listed by ascending rank, rows of equal rank in the order of their
  insertion.
\<close>

definition select_all ::
  "(row \<Rightarrow> 'o::linorder) \<Rightarrow> sqlmodel \<Rightarrow> database \<Rightarrow> error + row list" where
  "select_all rank M db =
     (case db (tablename M) of
        None \<Rightarrow> Inl OperationalError
      | Some tbl \<Rightarrow> Inr (sort_key rank tbl))"

text \<open>\<open>session.get(M, obj_id)\<close>.\<close>

definition session_get :: "sqlmodel \<Rightarrow> val \<Rightarrow> database \<Rightarrow> error + row option" where
  "session_get M obj_id db =
     (case db (tablename M) of
        None \<Rightarrow> Inl OperationalError
      | Some tbl \<Rightarrow> Inr (find (\<lambda>r. row_key M r = Some obj_id) tbl))"

text \<open>
  The row that the store inserts for a new object: when the object has no key, the
  store assigns one; \<open>next_key\<close>, a parameter, is the key that the store assigns given
  the rows of the table.
\<close>

definition keyed :: "(row list \<Rightarrow> val) \<Rightarrow> sqlmodel \<Rightarrow> row list \<Rightarrow> row \<Rightarrow> row" where
  "keyed next_key M tbl db_obj =
     (if row_key M db_obj = None \<or> row_key M db_obj = Some VNone
      then AList.update (primary_key M) (next_key tbl) db_obj
      else db_obj)"

text \<open>
  \<open>session.add(db_obj); session.commit()\<close> for a new object. The result is the object as
  the insertion leaves it, and the new state of the store.
\<close>

definition session_add_commit ::
  "(sqlmodel \<Rightarrow> row list \<Rightarrow> error option) \<Rightarrow> (row list \<Rightarrow> val) \<Rightarrow> sqlmodel \<Rightarrow> row \<Rightarrow> database
     \<Rightarrow> error + row \<times> database" where
  "session_add_commit store_check next_key M db_obj db =
     (case db (tablename M) of
        None \<Rightarrow> Inl OperationalError
      | Some tbl \<Rightarrow>
          (let r = keyed next_key M tbl db_obj;
               tbl' = tbl @ [r]
           in if \<not> pk_constraint M tbl' then Inl IntegrityError
              else (case store_check M tbl' of
                      Some e \<Rightarrow> Inl e
                    | None \<Rightarrow> Inr (r, db(tablename M \<mapsto> tbl')))))"

text \<open>
  \<open>session.add(db_obj); session.commit()\<close> for an object that \<open>session.get\<close> loaded under
  the key \<open>obj_id\<close> and that was modified since: the row of that key takes the state of
  the object.
\<close>

definition session_update_commit ::
  "(sqlmodel \<Rightarrow> row list \<Rightarrow> error option) \<Rightarrow> sqlmodel \<Rightarrow> val \<Rightarrow> row \<Rightarrow> database
     \<Rightarrow> error + database" where
  "session_update_commit store_check M obj_id db_obj db =
     (case db (tablename M) of
        None \<Rightarrow> Inl OperationalError
      | Some tbl \<Rightarrow>
          (let tbl' = map (\<lambda>r. if row_key M r = Some obj_id then db_obj else r) tbl
           in if \<not> pk_constraint M tbl' then Inl IntegrityError
              else (case store_check M tbl' of
                      Some e \<Rightarrow> Inl e
                    | None \<Rightarrow> Inr (db(tablename M \<mapsto> tbl')))))"

text \<open>\<open>session.delete(db_obj); session.commit()\<close> for an object loaded under \<open>obj_id\<close>.\<close>

definition session_delete_commit :: "sqlmodel \<Rightarrow> val \<Rightarrow> database \<Rightarrow> database" where
  "session_delete_commit M obj_id db =
     (case db (tablename M) of
        None \<Rightarrow> db
      | Some tbl \<Rightarrow> db(tablename M \<mapsto> filter (\<lambda>r. row_key M r \<noteq> Some obj_id) tbl))"

text \<open>
  \<open>session.refresh(db_obj)\<close>: the object is read again from the store under its key; it
  is an error if no such row exists.
\<close>

definition session_refresh :: "sqlmodel \<Rightarrow> row \<Rightarrow> database \<Rightarrow> error + row" where
  "session_refresh M db_obj db =
     (case row_key M db_obj of
        None \<Rightarrow> Inl InvalidRequestError
      | Some k \<Rightarrow>
          (case session_get M k db of
             Inl e \<Rightarrow> Inl e
           | Inr None \<Rightarrow> Inl InvalidRequestError
           | Inr (Some r) \<Rightarrow> Inr r))"

subsection \<open>The five operations\<close>

text \<open>
  The methods are coroutines that contain no \<open>await\<close>; the model gives what a call
  yields when it is awaited. Every operation first evaluates
  \<open>self._sql_connection.get_engine()\<close>, which may raise, and then works in one session
  on the store. An operation that changes the store
  returns its result together with the new state; an exception leaves the state as it
  was. The absence value \<open>None\<close> of Python is \<open>None\<close> of the option type.
  \<open>Model.model_validate\<close> of pydantic, which validates and coerces a payload into an
  object of the model or raises, is the parameter \<open>model_validate\<close> of \<open>create\<close>.
\<close>

definition get_all ::
  "(string \<Rightarrow> bool \<Rightarrow> error + 'e) \<Rightarrow> (row \<Rightarrow> 'o::linorder) \<Rightarrow> sqlmodel dao \<Rightarrow> database
     \<Rightarrow> error + row list" where
  "get_all create_engine rank self db =
     (case get_engine create_engine (sql_connection self) False of
        Inl e \<Rightarrow> Inl e
      | Inr engine \<Rightarrow> select_all rank (model self) db)"

definition get_by_id ::
  "(string \<Rightarrow> bool \<Rightarrow> error + 'e) \<Rightarrow> sqlmodel dao \<Rightarrow> val \<Rightarrow> database \<Rightarrow> error + row option" where
  "get_by_id create_engine self obj_id db =
     (case get_engine create_engine (sql_connection self) False of
        Inl e \<Rightarrow> Inl e
      | Inr engine \<Rightarrow> session_get (model self) obj_id db)"

definition create ::
  "(string \<Rightarrow> bool \<Rightarrow> error + 'e) \<Rightarrow> (sqlmodel \<Rightarrow> payload \<Rightarrow> error + row)
     \<Rightarrow> (sqlmodel \<Rightarrow> row list \<Rightarrow> error option) \<Rightarrow> (row list \<Rightarrow> val) \<Rightarrow> sqlmodel dao \<Rightarrow> payload
     \<Rightarrow> database \<Rightarrow> error + row \<times> database" where
  "create create_engine model_validate store_check next_key self obj_create db =
     (case get_engine create_engine (sql_connection self) False of
        Inl e \<Rightarrow> Inl e
      | Inr engine \<Rightarrow>
          (case model_validate (model self) obj_create of
             Inl e \<Rightarrow> Inl e
           | Inr db_obj \<Rightarrow>
               (case session_add_commit store_check next_key (model self) db_obj db of
                  Inl e \<Rightarrow> Inl e
                | Inr (db_obj', db') \<Rightarrow>
                    (case session_refresh (model self) db_obj' db' of
                       Inl e \<Rightarrow> Inl e
                     | Inr db_obj'' \<Rightarrow> Inr (db_obj'', db')))))"

definition update ::
  "(string \<Rightarrow> bool \<Rightarrow> error + 'e) \<Rightarrow> (sqlmodel \<Rightarrow> row list \<Rightarrow> error option) \<Rightarrow> sqlmodel dao
     \<Rightarrow> val \<Rightarrow> payload \<Rightarrow> database \<Rightarrow> error + row option \<times> database" where
  "update create_engine store_check self obj_id obj_update db =
     (case get_engine create_engine (sql_connection self) False of
        Inl e \<Rightarrow> Inl e
      | Inr engine \<Rightarrow>
          (case session_get (model self) obj_id db of
             Inl e \<Rightarrow> Inl e
           | Inr None \<Rightarrow> Inr (None, db)
           | Inr (Some db_obj) \<Rightarrow>
               (let update_data = model_dump_exclude_unset obj_update;
                    db_obj' = setattrs db_obj update_data
                in case session_update_commit store_check (model self) obj_id db_obj' db of
                     Inl e \<Rightarrow> Inl e
                   | Inr db' \<Rightarrow>
                       (case session_refresh (model self) db_obj' db' of
                          Inl e \<Rightarrow> Inl e
                        | Inr db_obj'' \<Rightarrow> Inr (Some db_obj'', db')))))"

definition delete ::
  "(string \<Rightarrow> bool \<Rightarrow> error + 'e) \<Rightarrow> sqlmodel dao \<Rightarrow> val \<Rightarrow> database
     \<Rightarrow> error + bool option \<times> database" where
  "delete create_engine self obj_id db =
     (case get_engine create_engine (sql_connection self) False of
        Inl e \<Rightarrow> Inl e
      | Inr engine \<Rightarrow>
          (case session_get (model self) obj_id db of
             Inl e \<Rightarrow> Inl e
           | Inr None \<Rightarrow> Inr (None, db)
           | Inr (Some db_obj) \<Rightarrow>
               Inr (Some True, session_delete_commit (model self) obj_id db)))"


text \<open>
  The Binding in the words of the specification: the three type parameters with which
  the generic base was instantiated, if the class has such a base with exactly three.
  \<open>parameterisations\<close> lists the type arguments of the bases that instantiate
  \<open>BaseModelDAO\<close>.
\<close>

definition parameterisations :: "'c base list \<Rightarrow> 'c list list" where
  "parameterisations bases =
     map get_args (filter (\<lambda>b. get_origin b = Some BaseModelDAO) bases)"

definition binding_of :: "'c pyclass \<Rightarrow> ('c \<times> 'c \<times> 'c) option" where
  "binding_of cls =
     (case parameterisations (orig_bases cls) of
        [] \<Rightarrow> None
      | args # _ \<Rightarrow> (case args of [m, c, u] \<Rightarrow> Some (m, c, u) | _ \<Rightarrow> None))"

subsection \<open>Example data\<close>

text \<open>
  An example for the witnesses below: a model class \<open>User\<close> with the fields
  \<open>id: Optional[int] = None\<close> (the primary key, assigned by the store),
  \<open>name: str\<close> and \<open>age: Optional[int] = None\<close>; a repository bound to it in an
  environment that holds only \<open>URL\<close>, and one in an empty environment; a store with two
  rows; and a \<open>create_engine\<close> that returns its arguments as the handle.
\<close>

definition User_model :: sqlmodel where
  "User_model = \<lparr> tablename = ''user'', primary_key = ''id'' \<rparr>"

definition user_dao :: "sqlmodel dao" where
  "user_dao =
     \<lparr> model = User_model,
       sql_connection = SQLConnection_init (Map.empty(''URL'' \<mapsto> ''sqlite://'')) \<rparr>"


definition two_users :: database where
  "two_users =
     Map.empty(''user'' \<mapsto>
        [[(''id'', VInt 1), (''name'', VStr ''ann''), (''age'', VNone)],
         [(''id'', VInt 2), (''name'', VStr ''bob''), (''age'', VInt 3)]])"

definition engine_stub :: "string \<Rightarrow> bool \<Rightarrow> error + string \<times> bool" where
  "engine_stub target echo = Inr (target, echo)"

text \<open>
  The parameters for the example. \<open>user_validate\<close> is the validation of \<open>User\<close> on
  payloads whose values have the declared types; values of other types, which pydantic
  may coerce, are outside the example and given as validation errors.
  \<open>user_store_check\<close> is a store in which integers have 64 bits and the column \<open>name\<close>
  must not be null. \<open>count_key\<close> numbers the rows, and \<open>by_id\<close> lists them by key.
\<close>

fun optional_int :: "val option \<Rightarrow> val option" where
  "optional_int None = Some VNone"
| "optional_int (Some VNone) = Some VNone"
| "optional_int (Some (VInt n)) = Some (VInt n)"
| "optional_int (Some _) = None"

definition user_validate :: "sqlmodel \<Rightarrow> payload \<Rightarrow> error + row" where
  "user_validate M obj =
     (case (optional_int (map_of (attrs obj) ''id''), map_of (attrs obj) ''name'',
            optional_int (map_of (attrs obj) ''age'')) of
        (Some i, Some (VStr n), Some a) \<Rightarrow> Inr [(''id'', i), (''name'', VStr n), (''age'', a)]
      | _ \<Rightarrow> Inl ValidationError)"

definition fits_int64 :: "val \<Rightarrow> bool" where
  "fits_int64 v =
     (case v of VInt n \<Rightarrow> - 9223372036854775808 \<le> n \<and> n \<le> 9223372036854775807 | _ \<Rightarrow> True)"

fun not_null :: "val option \<Rightarrow> bool" where
  "not_null None = False"
| "not_null (Some VNone) = False"
| "not_null (Some _) = True"

definition user_store_check :: "sqlmodel \<Rightarrow> row list \<Rightarrow> error option" where
  "user_store_check M tbl =
     (if \<not> list_all (\<lambda>r. list_all (\<lambda>(f, v). fits_int64 v) r) tbl then Some OverflowError
      else if \<not> list_all (\<lambda>r. not_null (map_of r ''name'')) tbl then Some IntegrityError
      else None)"

definition count_key :: "row list \<Rightarrow> val" where
  "count_key tbl = VInt (int (length tbl) + 1)"

definition by_id :: "row \<Rightarrow> int" where
  "by_id r = (case map_of r ''id'' of Some (VInt n) \<Rightarrow> n | _ \<Rightarrow> 0)"

section \<open>Properties of the connection provider\<close>

lemma sublist_join: "n \<in> set xs \<Longrightarrow> sublist n (join sep xs)"
proof (induction sep xs rule: join.induct)
  case (1 sep)
  then show ?case by simp
next
  case (2 sep x)
  then show ?case by simp
next
  case (3 sep x y ys)
  show ?case
  proof (cases "n = x")
    case True
    then show ?thesis by (simp add: sublist_append_rightI)
  next
    case False
    with 3 have "sublist n (join sep (y # ys))" by simp
    then show ?thesis by (simp add: sublist_append)
  qed
qed

lemma sublist_prepend: "sublist n zs \<Longrightarrow> sublist n (ps @ zs)"
  by (simp add: sublist_append)

lemma lower_names:
  "lower ''sqlite'' = ''sqlite''" "lower ''postgres'' = ''postgres''"
  "lower ''mysql'' = ''mysql''"
  by (simp_all add: lower_def lower_char_def)

lemma missing_vars_iff:
  "(''USER_DB'' \<in> set (missing_vars self)) = (user_db self = None)"
  "(''PASS_DB'' \<in> set (missing_vars self)) = (pass_db self = None)"
  "(''HOST_DB'' \<in> set (missing_vars self)) = (host_db self = None)"
  "(''PORT_DB'' \<in> set (missing_vars self)) = (port_db self = None)"
  "(''NAME_DB'' \<in> set (missing_vars self)) = (name_db self = None)"
  by (auto simp: missing_vars_def)

lemma missing_vars_empty_iff:
  "(missing_vars self = []) =
     (user_db self \<noteq> None \<and> pass_db self \<noteq> None \<and> host_db self \<noteq> None
        \<and> port_db self \<noteq> None \<and> name_db self \<noteq> None)"
  by (auto simp: missing_vars_def)

lemma missing_vars_sgdb [simp]: "missing_vars (self\<lparr>sgdb := s\<rparr>) = missing_vars self"
  by (simp add: missing_vars_def)

text \<open>
  Claim C3. When the full connection string is absent and at least one of \<open>USER_DB\<close>,
  \<open>PASS_DB\<close>, \<open>HOST_DB\<close>, \<open>PORT_DB\<close>, \<open>NAME_DB\<close> is missing, \<open>get_engine\<close> raises a
  \<open>ValueError\<close> whose message is the fixed prefix followed by the names of all missing
  variables, so that the name of every missing variable occurs in the message. The same
  error is raised whatever the selector \<open>SGDB\<close> holds, and whatever \<open>create_engine\<close>
  would do: neither is reached.
\<close>

theorem missing_parameters_named:
  assumes "url self = None"
    and "user_db self = None \<or> pass_db self = None \<or> host_db self = None
           \<or> port_db self = None \<or> name_db self = None"
  shows "\<exists>msg. get_engine create_engine self view_logs = Inl (ValueError msg)
           \<and> msg = ''Database connection parameters not set in environment variables: ''
                     @ join '', '' (missing_vars self)
           \<and> (user_db self = None \<longrightarrow> sublist ''USER_DB'' msg)
           \<and> (pass_db self = None \<longrightarrow> sublist ''PASS_DB'' msg)
           \<and> (host_db self = None \<longrightarrow> sublist ''HOST_DB'' msg)
           \<and> (port_db self = None \<longrightarrow> sublist ''PORT_DB'' msg)
           \<and> (name_db self = None \<longrightarrow> sublist ''NAME_DB'' msg)
           \<and> get_engine create_engine (self\<lparr>sgdb := s\<rparr>) view_logs = Inl (ValueError msg)"
proof -
  let ?msg = "''Database connection parameters not set in environment variables: ''
                @ join '', '' (missing_vars self)"
  from assms(2) have ne: "missing_vars self \<noteq> []"
    by (simp add: missing_vars_empty_iff)
  have named: "sublist n ?msg" if "n \<in> set (missing_vars self)" for n
    by (rule sublist_prepend [OF sublist_join [OF that]])
  have 1: "get_engine create_engine self view_logs = Inl (ValueError ?msg)"
    using assms(1) ne by (simp add: get_engine_def database_url_def)
  have 2: "get_engine create_engine (self\<lparr>sgdb := s\<rparr>) view_logs = Inl (ValueError ?msg)"
    using assms(1) ne by (simp add: get_engine_def database_url_def)
  show ?thesis
    using 1 2 named by (simp add: missing_vars_iff)
qed

text \<open>An instance of C3 with two missing variables: both are named.\<close>

theorem missing_parameters_named_witness:
  "get_engine (\<lambda>t e. Inr (t, e))
     \<lparr> url = None, user_db = Some ''u'', pass_db = None, host_db = Some ''h'',
       port_db = None, name_db = Some ''db'', sgdb = Some ''postgres'' \<rparr> False
   = Inl (ValueError
       ''Database connection parameters not set in environment variables: PASS_DB, PORT_DB'')"
  using missing_parameters_named [of
     "\<lparr> url = None, user_db = Some ''u'', pass_db = None, host_db = Some ''h'',
       port_db = None, name_db = Some ''db'', sgdb = Some ''postgres'' \<rparr>"
     "\<lambda>t e. Inr (t, e)" False None]
  by (simp add: missing_vars_def)

text \<open>
  Claim C4. With the full connection string absent and the five discrete parameters
  present, a selector that is, in lower case, the name of an engine kind makes
  \<open>get_engine\<close> pass to \<open>create_engine\<close> the target built from the template of that
  kind. Writing \<open>u\<close>, \<open>p\<close>, \<open>h\<close>, \<open>pt\<close>, \<open>n\<close> for the values of \<open>USER_DB\<close>, \<open>PASS_DB\<close>,
  \<open>HOST_DB\<close>, \<open>PORT_DB\<close>, \<open>NAME_DB\<close>, the targets are \<open>sqlite:///n.db\<close>,
  \<open>postgresql://u:p@h:pt/n\<close> and \<open>mysql+mysqlconnector://u:p@h:pt/n\<close>.
\<close>

theorem target_from_template:
  assumes "url self = None"
    and "user_db self = Some u" and "pass_db self = Some p" and "host_db self = Some h"
    and "port_db self = Some pt" and "name_db self = Some n"
    and "sgdb self = Some s" and "lower s = selector_name k"
  shows "database_url self = Inr (spec_target ''mysqlconnector'' k u p h pt n)
         \<and> get_engine create_engine self view_logs
             = create_engine (spec_target ''mysqlconnector'' k u p h pt n) view_logs"
proof -
  have m: "missing_vars self = []"
    using assms by (simp add: missing_vars_empty_iff)
  have "database_url self = Inr (spec_target ''mysqlconnector'' k u p h pt n)"
    using assms m by (cases k) (simp_all add: database_url_def)
  then show ?thesis by (simp add: get_engine_def)
qed

text \<open>
  The example of the specification, \<open>postgresql://u:p@h:5432/db\<close>, and one instance
  for each of the other two kinds.
\<close>

theorem target_from_template_witness:
  "get_engine (\<lambda>t e. Inr (t, e))
     \<lparr> url = None, user_db = Some ''u'', pass_db = Some ''p'', host_db = Some ''h'',
       port_db = Some ''5432'', name_db = Some ''db'', sgdb = Some ''postgres'' \<rparr> False
     = Inr (''postgresql://u:p@h:5432/db'', False)
   \<and> database_url
     \<lparr> url = None, user_db = Some ''u'', pass_db = Some ''p'', host_db = Some ''h'',
       port_db = Some ''3306'', name_db = Some ''db'', sgdb = Some ''MySQL'' \<rparr>
     = Inr ''mysql+mysqlconnector://u:p@h:3306/db''
   \<and> database_url
     \<lparr> url = None, user_db = Some ''u'', pass_db = Some ''p'', host_db = Some ''h'',
       port_db = Some ''0'', name_db = Some ''db'', sgdb = Some ''SQLITE'' \<rparr>
     = Inr ''sqlite:///db.db''"
  using target_from_template [of
     "\<lparr> url = None, user_db = Some ''u'', pass_db = Some ''p'', host_db = Some ''h'',
       port_db = Some ''5432'', name_db = Some ''db'', sgdb = Some ''postgres'' \<rparr>"
     "''u''" "''p''" "''h''" "''5432''" "''db''" "''postgres''" Postgres
     "\<lambda>t e. Inr (t, e)" False]
   target_from_template [of
     "\<lparr> url = None, user_db = Some ''u'', pass_db = Some ''p'', host_db = Some ''h'',
       port_db = Some ''3306'', name_db = Some ''db'', sgdb = Some ''MySQL'' \<rparr>"
     "''u''" "''p''" "''h''" "''3306''" "''db''" "''MySQL''" Mysql
     "\<lambda>t e. Inr (t, e)" False]
   target_from_template [of
     "\<lparr> url = None, user_db = Some ''u'', pass_db = Some ''p'', host_db = Some ''h'',
       port_db = Some ''0'', name_db = Some ''db'', sgdb = Some ''SQLITE'' \<rparr>"
     "''u''" "''p''" "''h''" "''0''" "''db''" "''SQLITE''" Sqlite
     "\<lambda>t e. Inr (t, e)" False]
  by (simp add: lower_def lower_char_def)

text \<open>
  Claim C5. With the full connection string absent and the five discrete parameters
  present: an absent selector raises a \<open>ValueError\<close>; a selector whose lower-case form
  is not \<open>sqlite\<close>, \<open>postgres\<close> or \<open>mysql\<close> raises a \<open>ValueError\<close> that names the value
  as it was supplied; in both cases \<open>create_engine\<close> is not reached. A selector whose
  lower-case form is one of the three is accepted, and every selector with the same
  lower-case form gives the same target.
\<close>

theorem selector_validated:
  assumes "url self = None"
    and "user_db self = Some u" and "pass_db self = Some p" and "host_db self = Some h"
    and "port_db self = Some pt" and "name_db self = Some n"
  shows "case sgdb self of
           None \<Rightarrow>
             get_engine create_engine self view_logs
               = Inl (ValueError ''SGDB is not set in environment variables.'')
         | Some s \<Rightarrow>
             if lower s \<in> {''sqlite'', ''postgres'', ''mysql''} then
               \<exists>target. database_url self = Inr target
                 \<and> (\<forall>s'. lower s' = lower s \<longrightarrow>
                        database_url (self\<lparr>sgdb := Some s'\<rparr>) = Inr target)
                 \<and> get_engine create_engine self view_logs = create_engine target view_logs
             else
               get_engine create_engine self view_logs
                 = Inl (ValueError (''Unsupported SGDB: '' @ s))"
proof -
  have m: "missing_vars self = []"
    using assms by (simp add: missing_vars_empty_iff)
  show ?thesis
  proof (cases "sgdb self")
    case None
    then show ?thesis
      using assms(1) m by (simp add: get_engine_def database_url_def)
  next
    case (Some s)
    then show ?thesis
      using assms(1) m by (auto simp: get_engine_def database_url_def lower_names)
  qed
qed

text \<open>An unsupported selector, an absent one, and one accepted in mixed case.\<close>

theorem selector_validated_witness:
  "get_engine (\<lambda>t e. Inr (t, e))
     \<lparr> url = None, user_db = Some ''u'', pass_db = Some ''p'', host_db = Some ''h'',
       port_db = Some ''1521'', name_db = Some ''db'', sgdb = Some ''Oracle'' \<rparr> True
     = Inl (ValueError ''Unsupported SGDB: Oracle'')
   \<and> get_engine (\<lambda>t e. Inr (t, e))
     \<lparr> url = None, user_db = Some ''u'', pass_db = Some ''p'', host_db = Some ''h'',
       port_db = Some ''1521'', name_db = Some ''db'', sgdb = None \<rparr> True
     = Inl (ValueError ''SGDB is not set in environment variables.'')
   \<and> get_engine (\<lambda>t e. Inr (t, e))
     \<lparr> url = None, user_db = Some ''u'', pass_db = Some ''p'', host_db = Some ''h'',
       port_db = Some ''1521'', name_db = Some ''db'', sgdb = Some ''PostGres'' \<rparr> True
     = Inr (''postgresql://u:p@h:1521/db'', True)"
  using selector_validated [of
     "\<lparr> url = None, user_db = Some ''u'', pass_db = Some ''p'', host_db = Some ''h'',
       port_db = Some ''1521'', name_db = Some ''db'', sgdb = Some ''Oracle'' \<rparr>"
     "''u''" "''p''" "''h''" "''1521''" "''db''" "\<lambda>t e. Inr (t, e)" True]
   selector_validated [of
     "\<lparr> url = None, user_db = Some ''u'', pass_db = Some ''p'', host_db = Some ''h'',
       port_db = Some ''1521'', name_db = Some ''db'', sgdb = None \<rparr>"
     "''u''" "''p''" "''h''" "''1521''" "''db''" "\<lambda>t e. Inr (t, e)" True]
   selector_validated [of
     "\<lparr> url = None, user_db = Some ''u'', pass_db = Some ''p'', host_db = Some ''h'',
       port_db = Some ''1521'', name_db = Some ''db'', sgdb = Some ''PostGres'' \<rparr>"
     "''u''" "''p''" "''h''" "''1521''" "''db''" "\<lambda>t e. Inr (t, e)" True]
  by (simp add: lower_def lower_char_def database_url_def missing_vars_def)

text \<open>
  Claim C6. When the full connection string is present it is the target, verbatim: no
  \<open>raise\<close> statement of \<open>get_engine\<close> is reached, whatever the other six values are,
  and the outcome is that of \<open>create_engine\<close> on this string.
\<close>

theorem url_used_verbatim:
  assumes "url self = Some u"
  shows "database_url self = Inr u
         \<and> get_engine create_engine self view_logs = create_engine u view_logs"
  using assms by (simp add: get_engine_def database_url_def)

text \<open>
  With a connection string, no discrete parameter and an unsupported selector, the
  string is passed on.
\<close>

theorem url_used_verbatim_witness:
  "get_engine (\<lambda>t e. Inr (t, e))
     \<lparr> url = Some ''sqlite:///file.db'', user_db = None, pass_db = None, host_db = None,
       port_db = None, name_db = None, sgdb = Some ''oracle'' \<rparr> False
   = Inr (''sqlite:///file.db'', False)"
  using url_used_verbatim [of
     "\<lparr> url = Some ''sqlite:///file.db'', user_db = None, pass_db = None, host_db = None,
       port_db = None, name_db = None, sgdb = Some ''oracle'' \<rparr>"
     "''sqlite:///file.db''" "\<lambda>t e. Inr (t, e)" False]
  by simp

lemma get_engine_calls:
  "run create_engine p acts =
     map (get_engine create_engine (connection p)) [v. Get_engine v \<leftarrow> acts]"
proof (induction acts arbitrary: p)
  case Nil
  then show ?case by simp
next
  case (Cons a acts)
  then show ?case by (cases a) simp_all
qed

text \<open>
  Claim C10. The constructor stores the values that the environment holds for the seven
  names at construction. Whatever changes the environment undergoes afterwards, every
  call of \<open>get_engine\<close> on the constructed instance computes its target, or its
  \<open>ValueError\<close>, from the stored values: all calls give the same target or the same
  error.
\<close>

theorem configuration_captured_once:
  "SQLConnection_init getenv =
     \<lparr> url = getenv ''URL'', user_db = getenv ''USER_DB'', pass_db = getenv ''PASS_DB'',
       host_db = getenv ''HOST_DB'', port_db = getenv ''PORT_DB'',
       name_db = getenv ''NAME_DB'', sgdb = getenv ''SGDB'' \<rparr>
   \<and> run create_engine \<lparr> os_environ = getenv, connection = SQLConnection_init getenv \<rparr> acts
       = map (\<lambda>view_logs.
                case database_url (SQLConnection_init getenv) of
                  Inl e \<Rightarrow> Inl e
                | Inr target \<Rightarrow> create_engine target view_logs)
             [v. Get_engine v \<leftarrow> acts]"
  by (simp add: get_engine_calls SQLConnection_init_def get_engine_def)

text \<open>
  Three calls on one instance, the variable \<open>URL\<close> being removed and then set anew
  between them.
\<close>

theorem configuration_captured_once_witness:
  "run (\<lambda>t e. Inr (t, e))
     \<lparr> os_environ = Map.empty(''URL'' \<mapsto> ''sqlite://''),
       connection = SQLConnection_init (Map.empty(''URL'' \<mapsto> ''sqlite://'')) \<rparr>
     [Get_engine False, Putenv ''URL'' None, Get_engine True,
      Putenv ''URL'' (Some ''x''), Get_engine False]
   = [Inr (''sqlite://'', False), Inr (''sqlite://'', True), Inr (''sqlite://'', False)]"
  using configuration_captured_once [of "Map.empty(''URL'' \<mapsto> ''sqlite://'')"
     "\<lambda>t e. Inr (t, e)"
     "[Get_engine False, Putenv ''URL'' None, Get_engine True,
       Putenv ''URL'' (Some ''x''), Get_engine False]"]
  by (simp add: SQLConnection_init_def database_url_def)

section \<open>Properties of the generic repository\<close>

subsection \<open>Lists, dictionaries and the store\<close>



lemma find_map_same:
  "(\<And>x. x \<in> set xs \<Longrightarrow> P (g x) = P x) \<Longrightarrow> (\<And>x. x \<in> set xs \<Longrightarrow> P x \<Longrightarrow> g x = x)
     \<Longrightarrow> find P (map g xs) = find P xs"
  by (induction xs) auto

lemma find_map_replace:
  "P y \<Longrightarrow> find P xs = Some x \<Longrightarrow> find P (map (\<lambda>r. if P r then y else r) xs) = Some y"
  by (induction xs) (auto split: if_splits)

lemma find_append_last:
  "\<forall>x\<in>set xs. \<not> P x \<Longrightarrow> P y \<Longrightarrow> find P (xs @ [y]) = Some y"
  by (induction xs) auto

lemma find_append_other:
  "\<not> P y \<Longrightarrow> find P (xs @ [y]) = find P xs"
  by (induction xs) auto

lemma map_of_setattrs:
  "map_of (setattrs r items) f =
     (case map_of (rev items) f of Some v \<Rightarrow> Some v | None \<Rightarrow> map_of r f)"
proof (induction r items rule: setattrs.induct)
  case (1 db_obj)
  then show ?case by simp
next
  case (2 db_obj key "value" items)
  then show ?case
    by (auto simp: update_conv' split: option.splits)
qed

lemma map_of_model_dump:
  "map_of (model_dump_exclude_unset p) f =
     (if f \<in> set (fields_set p) then map_of (attrs p) f else None)"
proof -
  have "map_of [(f, v) \<leftarrow> xs. f \<in> S] f = (if f \<in> S then map_of xs f else None)"
    for xs :: "(field \<times> val) list" and S
    by (induction xs) auto
  then show ?thesis by (simp add: model_dump_exclude_unset_def)
qed

lemma distinct_model_dump:
  "distinct (map fst (attrs p)) \<Longrightarrow> distinct (map fst (model_dump_exclude_unset p))"
  by (simp add: model_dump_exclude_unset_def distinct_map_filter)

lemma map_of_rev_distinct:
  "distinct (map fst xs) \<Longrightarrow> map_of (rev xs) = map_of xs"
proof (induction xs)
  case Nil
  then show ?case by simp
next
  case (Cons a xs)
  obtain k v where a: "a = (k, v)" by (cases a)
  from Cons.prems a have "map_of xs k = None"
    by (simp add: map_of_eq_None_iff)
  with Cons a show ?case
    by (auto simp: map_add_def fun_eq_iff split: option.splits)
qed

lemma map_of_updated:
  assumes "distinct (map fst (attrs p))"
  shows "map_of (setattrs r (model_dump_exclude_unset p)) f =
     (if f \<in> set (fields_set p) \<and> map_of (attrs p) f \<noteq> None then map_of (attrs p) f
      else map_of r f)"
  using distinct_model_dump [OF assms]
  by (auto simp: map_of_setattrs map_of_rev_distinct map_of_model_dump split: option.splits)





subsection \<open>Deletion\<close>



subsection \<open>Partial update\<close>

lemma map_of_setattrs_other:
  "f \<notin> fst ` set items \<Longrightarrow> map_of (setattrs r items) f = map_of r f"
  by (induction r items rule: setattrs.induct) (auto simp: update_conv')

lemma model_dump_keys:
  "fst ` set (model_dump_exclude_unset p) \<subseteq> set (fields_set p)"
  by (auto simp: model_dump_exclude_unset_def)

lemma row_key_setattrs:
  assumes "primary_key M \<notin> set (fields_set p)"
  shows "row_key M (setattrs r (model_dump_exclude_unset p)) = row_key M r"
proof -
  from assms model_dump_keys [of p]
  have "primary_key M \<notin> fst ` set (model_dump_exclude_unset p)" by blast
  then show ?thesis by (simp add: row_key_def map_of_setattrs_other)
qed

lemma find_key: "find (\<lambda>r. row_key M r = Some k) tbl = Some r \<Longrightarrow> row_key M r = Some k"
  by (induction tbl) (auto split: if_splits)

lemma pk_constraint_replace:
  assumes "pk_constraint M tbl" and "row_key M r' = Some k"
  shows "pk_constraint M (map (\<lambda>r. if row_key M r = Some k then r' else r) tbl)"
proof -
  have keys: "map (row_key M) (map (\<lambda>r. if row_key M r = Some k then r' else r) tbl)
                = map (row_key M) tbl"
    using assms(2) by (induction tbl) auto
  have "list_all (\<lambda>r. row_key M r \<noteq> None \<and> row_key M r \<noteq> Some VNone)
          (map (\<lambda>r. if row_key M r = Some k then r' else r) tbl)"
    using assms by (induction tbl) (auto simp: pk_constraint_def)
  with keys assms(1) show ?thesis
    unfolding pk_constraint_def by (simp only: simp_thms)
qed

lemma session_get_replace_same:
  assumes "db (tablename M) = Some tbl"
    and "find (\<lambda>r. row_key M r = Some k) tbl = Some r" and "row_key M r' = Some k"
  shows "session_get M k
           (db(tablename M \<mapsto> map (\<lambda>r. if row_key M r = Some k then r' else r) tbl))
         = Inr (Some r')"
  using assms find_map_replace [of "\<lambda>r. row_key M r = Some k" r' tbl r]
  by (simp add: session_get_def)

lemma session_get_replace_other:
  assumes "db (tablename M) = Some tbl" and "k' \<noteq> k" and "row_key M r' = Some k"
  shows "session_get M k'
           (db(tablename M \<mapsto> map (\<lambda>r. if row_key M r = Some k then r' else r) tbl))
         = session_get M k' db"
proof -
  have "find (\<lambda>r. row_key M r = Some k')
          (map (\<lambda>r. if row_key M r = Some k then r' else r) tbl)
        = find (\<lambda>r. row_key M r = Some k') tbl"
    by (rule find_map_same) (use assms in auto)
  with assms(1) show ?thesis by (simp add: session_get_def)
qed

text \<open>
  What \<open>update\<close> does with an entity that \<open>session.get\<close> found, when the payload does not
  set the key: the store decides.
\<close>

lemma update_found:
  assumes eng: "get_engine create_engine (sql_connection self) False = Inr engine"
    and tbl: "db (tablename (model self)) = Some tbl"
    and inv: "pk_constraint (model self) tbl"
    and pk: "primary_key (model self) \<notin> set (fields_set obj_update)"
    and old: "find (\<lambda>r. row_key (model self) r = Some obj_id) tbl = Some old"
    and new: "new = setattrs old (model_dump_exclude_unset obj_update)"
    and tbl': "tbl' = map (\<lambda>r. if row_key (model self) r = Some obj_id then new else r) tbl"
  shows "update create_engine store_check self obj_id obj_update db =
           (case store_check (model self) tbl' of
              Some e \<Rightarrow> Inl e
            | None \<Rightarrow> Inr (Some new, db(tablename (model self) \<mapsto> tbl')))"
proof -
  let ?M = "model self"
  have k_old: "row_key ?M old = Some obj_id"
    using old by (rule find_key)
  then have k_new: "row_key ?M new = Some obj_id"
    by (simp add: new row_key_setattrs [OF pk])
  have c: "pk_constraint ?M tbl'"
    unfolding tbl' by (rule pk_constraint_replace [OF inv k_new])
  have got: "session_get ?M obj_id db = Inr (Some old)"
    using tbl old by (simp add: session_get_def)
  have commit: "session_update_commit store_check ?M obj_id new db =
                  (case store_check ?M tbl' of
                     Some e \<Rightarrow> Inl e
                   | None \<Rightarrow> Inr (db(tablename ?M \<mapsto> tbl')))"
    using c tbl unfolding tbl' by (simp add: session_update_commit_def Let_def)
  have refresh: "session_refresh ?M new (db(tablename ?M \<mapsto> tbl')) = Inr new"
    using session_get_replace_same [where db = db and M = ?M, OF tbl old k_new] k_new
    unfolding tbl' by (simp add: session_refresh_def)
  show ?thesis
    using eng got commit refresh unfolding new [symmetric]
    by (simp add: update_def Let_def new [symmetric] split: option.splits)
qed


text \<open>
  Claim C1, as stated, fails: the store may reject the commit. In the example store the
  column \<open>name\<close> must not be null; a payload that sets \<open>name\<close> to \<open>None\<close> under the
  existing key 1 makes \<open>update\<close> raise \<open>IntegrityError\<close> instead of returning the entity.
\<close>

theorem update_store_error_counterexample:
  "get_by_id engine_stub user_dao (VInt 1) two_users
     = Inr (Some [(''id'', VInt 1), (''name'', VStr ''ann''), (''age'', VNone)])
   \<and> update engine_stub user_store_check user_dao (VInt 1)
       \<lparr> attrs = [(''name'', VNone), (''age'', VNone)], fields_set = [''name''] \<rparr> two_users
     = Inl IntegrityError"
  by (simp add: update_def get_by_id_def get_engine_def database_url_def engine_stub_def
      user_dao_def User_model_def two_users_def SQLConnection_init_def session_get_def
      session_update_commit_def session_refresh_def pk_constraint_def
      model_dump_exclude_unset_def row_key_def user_store_check_def fits_int64_def Let_def)

text \<open>
  Claim C1, amended. The table exists and satisfies its primary-key constraint; the
  payload is an Update Payload: its attributes form a dictionary and the primary key,
  which is not a mutable field, is not among the fields it sets. When \<open>get_by_id\<close>
  finds an entity under the key, the store decides on the commit of the table in which
  this entity has taken the fields that the payload set. If the store rejects it,
  \<open>update\<close> raises the exception of the store. Otherwise \<open>update\<close> returns an entity in
  which every field that the payload set explicitly has the value of the payload and
  every other field has the value it had; this entity is what \<open>get_by_id\<close> finds under
  the key afterwards, every other key gives what it gave before, no row is added or
  removed, and no other table changes. When \<open>get_by_id\<close> finds no row, \<open>update\<close>
  returns \<open>None\<close>, raises nothing and leaves the store as it was.
\<close>

theorem update_assigns_set_fields:
  assumes tbl: "db (tablename (model self)) = Some tbl"
    and inv: "pk_constraint (model self) tbl"
    and pk: "primary_key (model self) \<notin> set (fields_set obj_update)"
    and dict: "distinct (map fst (attrs obj_update))"
  shows "(get_by_id create_engine self obj_id db = Inr (Some old) \<longrightarrow>
            (case store_check (model self)
                    (map (\<lambda>r. if row_key (model self) r = Some obj_id
                              then setattrs old (model_dump_exclude_unset obj_update) else r)
                       tbl) of
               Some e \<Rightarrow> update create_engine store_check self obj_id obj_update db = Inl e
             | None \<Rightarrow>
                 (\<exists>new db'.
                    update create_engine store_check self obj_id obj_update db
                      = Inr (Some new, db')
                    \<and> (\<forall>f. map_of new f =
                          (if f \<in> set (fields_set obj_update)
                                \<and> map_of (attrs obj_update) f \<noteq> None
                           then map_of (attrs obj_update) f
                           else map_of old f))
                    \<and> get_by_id create_engine self obj_id db' = Inr (Some new)
                    \<and> (\<forall>k. k \<noteq> obj_id \<longrightarrow>
                          get_by_id create_engine self k db' = get_by_id create_engine self k db)
                    \<and> map_option length (db' (tablename (model self))) = Some (length tbl)
                    \<and> (\<forall>t. t \<noteq> tablename (model self) \<longrightarrow> db' t = db t))))
         \<and> (get_by_id create_engine self obj_id db = Inr None \<longrightarrow>
              update create_engine store_check self obj_id obj_update db = Inr (None, db))"
proof (intro conjI impI)
  assume "get_by_id create_engine self obj_id db = Inr None"
  then show "update create_engine store_check self obj_id obj_update db = Inr (None, db)"
    by (auto simp: get_by_id_def update_def split: sum.splits)
next
  let ?M = "model self"
  define new where "new = setattrs old (model_dump_exclude_unset obj_update)"
  define tbl' where "tbl' = map (\<lambda>r. if row_key ?M r = Some obj_id then new else r) tbl"
  let ?db' = "db(tablename ?M \<mapsto> tbl')"
  assume "get_by_id create_engine self obj_id db = Inr (Some old)"
  then obtain engine where
    eng: "get_engine create_engine (sql_connection self) False = Inr engine"
    and got: "session_get ?M obj_id db = Inr (Some old)"
    by (auto simp: get_by_id_def split: sum.splits)
  from got tbl have old: "find (\<lambda>r. row_key ?M r = Some obj_id) tbl = Some old"
    by (simp add: session_get_def)
  have k_new: "row_key ?M new = Some obj_id"
    using find_key [OF old] by (simp add: new_def row_key_setattrs [OF pk])
  have upd: "update create_engine store_check self obj_id obj_update db =
               (case store_check ?M tbl' of
                  Some e \<Rightarrow> Inl e
                | None \<Rightarrow> Inr (Some new, ?db'))"
    by (rule update_found [where db = db and self = self, OF eng tbl inv pk old new_def tbl'_def])
  have 2: "\<forall>f. map_of new f =
             (if f \<in> set (fields_set obj_update) \<and> map_of (attrs obj_update) f \<noteq> None
              then map_of (attrs obj_update) f
              else map_of old f)"
    by (simp add: new_def map_of_updated [OF dict])
  have 3: "get_by_id create_engine self obj_id ?db' = Inr (Some new)"
    using eng session_get_replace_same [where db = db and M = ?M, OF tbl old k_new]
    by (simp add: get_by_id_def tbl'_def)
  have 4: "\<forall>k. k \<noteq> obj_id \<longrightarrow>
             get_by_id create_engine self k ?db' = get_by_id create_engine self k db"
    using eng session_get_replace_other [where db = db and M = ?M, OF tbl _ k_new]
    by (simp add: get_by_id_def tbl'_def)
  have 5: "map_option length (?db' (tablename ?M)) = Some (length tbl)"
    by (simp add: tbl'_def)
  have 6: "\<forall>t. t \<noteq> tablename ?M \<longrightarrow> ?db' t = db t"
    by simp
  show "case store_check ?M
               (map (\<lambda>r. if row_key ?M r = Some obj_id
                         then setattrs old (model_dump_exclude_unset obj_update) else r)
                  tbl) of
          Some e \<Rightarrow> update create_engine store_check self obj_id obj_update db = Inl e
        | None \<Rightarrow>
            (\<exists>new db'.
               update create_engine store_check self obj_id obj_update db
                 = Inr (Some new, db')
               \<and> (\<forall>f. map_of new f =
                     (if f \<in> set (fields_set obj_update)
                           \<and> map_of (attrs obj_update) f \<noteq> None
                      then map_of (attrs obj_update) f
                      else map_of old f))
               \<and> get_by_id create_engine self obj_id db' = Inr (Some new)
               \<and> (\<forall>k. k \<noteq> obj_id \<longrightarrow>
                     get_by_id create_engine self k db' = get_by_id create_engine self k db)
               \<and> map_option length (db' (tablename (model self))) = Some (length tbl)
               \<and> (\<forall>t. t \<noteq> tablename (model self) \<longrightarrow> db' t = db t))"
  proof (cases "store_check ?M tbl'")
    case None
    with upd have 1: "update create_engine store_check self obj_id obj_update db
                        = Inr (Some new, ?db')"
      by simp
    from 1 2 3 4 5 6
    have "\<exists>new db'.
            update create_engine store_check self obj_id obj_update db = Inr (Some new, db')
            \<and> (\<forall>f. map_of new f =
                  (if f \<in> set (fields_set obj_update) \<and> map_of (attrs obj_update) f \<noteq> None
                   then map_of (attrs obj_update) f
                   else map_of old f))
            \<and> get_by_id create_engine self obj_id db' = Inr (Some new)
            \<and> (\<forall>k. k \<noteq> obj_id \<longrightarrow>
                  get_by_id create_engine self k db' = get_by_id create_engine self k db)
            \<and> map_option length (db' (tablename (model self))) = Some (length tbl)
            \<and> (\<forall>t. t \<noteq> tablename (model self) \<longrightarrow> db' t = db t)"
      by blast
    with None show ?thesis
      unfolding tbl'_def new_def by simp
  next
    case (Some e)
    with upd show ?thesis
      unfolding tbl'_def new_def by simp
  qed
qed

text \<open>
  A payload that sets only \<open>age\<close>, while its unset attribute \<open>name\<close> holds the default
  \<open>None\<close>: the name of the stored entity is kept. The same payload under the absent
  key 3 changes nothing.
\<close>

theorem update_assigns_set_fields_witness:
  "update engine_stub user_store_check user_dao (VInt 1)
     \<lparr> attrs = [(''name'', VNone), (''age'', VInt 5)], fields_set = [''age''] \<rparr> two_users
     = Inr (Some [(''id'', VInt 1), (''name'', VStr ''ann''), (''age'', VInt 5)],
            Map.empty(''user'' \<mapsto>
               [[(''id'', VInt 1), (''name'', VStr ''ann''), (''age'', VInt 5)],
                [(''id'', VInt 2), (''name'', VStr ''bob''), (''age'', VInt 3)]]))
   \<and> update engine_stub user_store_check user_dao (VInt 3)
     \<lparr> attrs = [(''name'', VNone), (''age'', VInt 5)], fields_set = [''age''] \<rparr> two_users
     = Inr (None, two_users)"
  using update_assigns_set_fields [of two_users user_dao
          "[[(''id'', VInt 1), (''name'', VStr ''ann''), (''age'', VNone)],
            [(''id'', VInt 2), (''name'', VStr ''bob''), (''age'', VInt 3)]]"
          "\<lparr> attrs = [(''name'', VNone), (''age'', VInt 5)], fields_set = [''age''] \<rparr>"
          engine_stub "VInt 1" "[(''id'', VInt 1), (''name'', VStr ''ann''), (''age'', VNone)]"
          user_store_check]
    update_assigns_set_fields [of two_users user_dao
          "[[(''id'', VInt 1), (''name'', VStr ''ann''), (''age'', VNone)],
            [(''id'', VInt 2), (''name'', VStr ''bob''), (''age'', VInt 3)]]"
          "\<lparr> attrs = [(''name'', VNone), (''age'', VInt 5)], fields_set = [''age''] \<rparr>"
          engine_stub "VInt 3" _ user_store_check]
  by (simp add: update_def get_by_id_def get_engine_def database_url_def engine_stub_def
      user_dao_def User_model_def two_users_def SQLConnection_init_def session_get_def
      session_update_commit_def session_refresh_def pk_constraint_def
      model_dump_exclude_unset_def row_key_def user_store_check_def fits_int64_def Let_def)

subsection \<open>Creation\<close>

lemma pk_constraint_append:
  "pk_constraint M (tbl @ [r]) \<Longrightarrow>
     pk_constraint M tbl \<and> row_key M r \<notin> set (map (row_key M) tbl)
       \<and> row_key M r \<noteq> None \<and> row_key M r \<noteq> Some VNone"
  by (auto simp: pk_constraint_def)

lemma session_get_append_new:
  assumes "db (tablename M) = Some tbl"
    and "row_key M r = Some k" and "Some k \<notin> set (map (row_key M) tbl)"
  shows "session_get M k (db(tablename M \<mapsto> tbl @ [r])) = Inr (Some r)"
proof -
  have "find (\<lambda>r. row_key M r = Some k) (tbl @ [r]) = Some r"
    by (rule find_append_last) (use assms in force)+
  then show ?thesis by (simp add: session_get_def)
qed

lemma session_get_append_other:
  assumes "db (tablename M) = Some tbl" and "row_key M r \<noteq> Some k"
  shows "session_get M k (db(tablename M \<mapsto> tbl @ [r])) = session_get M k db"
  using assms by (simp add: session_get_def find_append_other)

text \<open>An accepted insertion is read back as it was inserted.\<close>

lemma refresh_inserted:
  assumes "db (tablename M) = Some tbl" and "pk_constraint M (tbl @ [r])"
  shows "session_refresh M r (db(tablename M \<mapsto> tbl @ [r])) = Inr r"
proof -
  from pk_constraint_append [OF assms(2)] obtain k where
    k: "row_key M r = Some k" and fresh: "Some k \<notin> set (map (row_key M) tbl)"
    by (cases "row_key M r") auto
  from session_get_append_new [where db = db and M = M, OF assms(1) k fresh] k
  show ?thesis by (simp add: session_refresh_def)
qed

text \<open>A \<open>create\<close> that returns has appended exactly the entity it returns.\<close>

lemma create_appends:
  assumes "create create_engine model_validate store_check next_key self obj_create db
             = Inr (r, db')"
  shows "\<exists>tbl. db (tablename (model self)) = Some tbl
           \<and> db' = db(tablename (model self) \<mapsto> tbl @ [r])
           \<and> pk_constraint (model self) (tbl @ [r])"
proof -
  let ?M = "model self"
  from assms obtain db_obj r0 where
    ins: "session_add_commit store_check next_key ?M db_obj db = Inr (r0, db')"
    and ref: "session_refresh ?M r0 db' = Inr r"
    by (auto simp: create_def split: sum.splits prod.splits)
  from ins obtain tbl where tbl: "db (tablename ?M) = Some tbl"
    and db': "db' = db(tablename ?M \<mapsto> tbl @ [r0])"
    and c: "pk_constraint ?M (tbl @ [r0])"
    by (auto simp: session_add_commit_def Let_def split: option.splits if_splits)
  from refresh_inserted [where db = db and M = ?M, OF tbl c] ref db' have "r = r0" by simp
  with tbl db' c show ?thesis by simp
qed

text \<open>
  Claim C7, as stated, fails: \<open>create\<close> does not return for every Creation Payload. A
  payload that supplies the key 1, which the table holds already, makes \<open>create\<close>
  raise \<open>IntegrityError\<close>.
\<close>

theorem create_duplicate_key_counterexample:
  "create engine_stub user_validate user_store_check count_key user_dao
     \<lparr> attrs = [(''id'', VInt 1), (''name'', VStr ''dup''), (''age'', VNone)],
       fields_set = [''id'', ''name''] \<rparr>
     two_users
   = Inl IntegrityError"
  by (simp add: create_def get_engine_def database_url_def engine_stub_def
      user_dao_def User_model_def two_users_def SQLConnection_init_def
      session_add_commit_def pk_constraint_def keyed_def
      user_validate_def count_key_def row_key_def Let_def)

text \<open>
  Claim C7, amended. The connection provider yields a handle and the table exists. If
  the payload does not validate, \<open>create\<close> raises the validation error. Otherwise the
  store decides on the insertion of the validated object, to which it assigns a key if
  the object has none: if the table with the new row breaks the primary-key constraint
  (the key is null or present already), or another constraint of the store, \<open>create\<close>
  raises the exception of the store. Otherwise \<open>create\<close> returns the row as inserted,
  which is appended to the table; its key is not null and is the key that the store
  assigned if the object had none; \<open>get_by_id\<close> with this key on the resulting store
  gives this very entity; and every other key gives what it gave before.
\<close>

theorem create_then_get:
  assumes eng: "get_engine create_engine (sql_connection self) False = Inr engine"
    and tbl: "db (tablename (model self)) = Some tbl"
  shows "case model_validate (model self) obj_create of
           Inl e \<Rightarrow>
             create create_engine model_validate store_check next_key self obj_create db = Inl e
         | Inr db_obj \<Rightarrow>
             (let r = keyed next_key (model self) tbl db_obj;
                  db' = db(tablename (model self) \<mapsto> tbl @ [r])
              in if \<not> pk_constraint (model self) (tbl @ [r]) then
                   create create_engine model_validate store_check next_key self obj_create db
                     = Inl IntegrityError
                 else
                   (case store_check (model self) (tbl @ [r]) of
                      Some e \<Rightarrow>
                        create create_engine model_validate store_check next_key self
                          obj_create db = Inl e
                    | None \<Rightarrow>
                        create create_engine model_validate store_check next_key self
                          obj_create db = Inr (r, db')
                        \<and> (\<exists>k. row_key (model self) r = Some k \<and> k \<noteq> VNone
                              \<and> (row_key (model self) db_obj = None
                                    \<or> row_key (model self) db_obj = Some VNone
                                  \<longrightarrow> k = next_key tbl)
                              \<and> get_by_id create_engine self k db' = Inr (Some r)
                              \<and> (\<forall>k'. k' \<noteq> k \<longrightarrow>
                                    get_by_id create_engine self k' db'
                                      = get_by_id create_engine self k' db))))"
proof (cases "model_validate (model self) obj_create")
  case (Inl e)
  with eng show ?thesis by (simp add: create_def)
next
  case (Inr db_obj)
  let ?M = "model self"
  define r where "r = keyed next_key ?M tbl db_obj"
  let ?db' = "db(tablename ?M \<mapsto> tbl @ [r])"
  have ins: "session_add_commit store_check next_key ?M db_obj db =
               (if \<not> pk_constraint ?M (tbl @ [r]) then Inl IntegrityError
                else case store_check ?M (tbl @ [r]) of
                       Some e \<Rightarrow> Inl e
                     | None \<Rightarrow> Inr (r, ?db'))"
    using tbl unfolding r_def by (simp add: session_add_commit_def Let_def)
  have main: "if \<not> pk_constraint ?M (tbl @ [r]) then
                create create_engine model_validate store_check next_key self obj_create db
                  = Inl IntegrityError
              else
                (case store_check ?M (tbl @ [r]) of
                   Some e \<Rightarrow>
                     create create_engine model_validate store_check next_key self
                       obj_create db = Inl e
                 | None \<Rightarrow>
                     create create_engine model_validate store_check next_key self
                       obj_create db = Inr (r, ?db')
                     \<and> (\<exists>k. row_key ?M r = Some k \<and> k \<noteq> VNone
                           \<and> (row_key ?M db_obj = None \<or> row_key ?M db_obj = Some VNone
                               \<longrightarrow> k = next_key tbl)
                           \<and> get_by_id create_engine self k ?db' = Inr (Some r)
                           \<and> (\<forall>k'. k' \<noteq> k \<longrightarrow>
                                 get_by_id create_engine self k' ?db'
                                   = get_by_id create_engine self k' db)))"
  proof (cases "pk_constraint ?M (tbl @ [r])")
    case False
    with eng Inr ins show ?thesis by (simp add: create_def)
  next
    case c: True
    show ?thesis
    proof (cases "store_check ?M (tbl @ [r])")
      case (Some e)
      with eng Inr ins c show ?thesis by (simp add: create_def)
    next
      case None
      from pk_constraint_append [OF c] obtain k where
        k: "row_key ?M r = Some k" and nonnull: "k \<noteq> VNone"
        and fresh: "Some k \<notin> set (map (row_key ?M) tbl)"
        by (cases "row_key ?M r") auto
      have 1: "create create_engine model_validate store_check next_key self obj_create db
                 = Inr (r, ?db')"
        using eng Inr ins c None refresh_inserted [where db = db and M = ?M, OF tbl c]
        by (simp add: create_def)
      have 2: "row_key ?M db_obj = None \<or> row_key ?M db_obj = Some VNone
                 \<longrightarrow> k = next_key tbl"
        using k by (auto simp: r_def keyed_def row_key_def update_conv')
      have 3: "get_by_id create_engine self k ?db' = Inr (Some r)"
        using eng session_get_append_new [where db = db and M = ?M, OF tbl k fresh]
        by (simp add: get_by_id_def)
      have 4: "\<forall>k'. k' \<noteq> k \<longrightarrow>
                 get_by_id create_engine self k' ?db' = get_by_id create_engine self k' db"
        using eng k session_get_append_other [where db = db and M = ?M and r = r, OF tbl]
        by (simp add: get_by_id_def)
      from 1 k nonnull 2 3 4 c None show ?thesis by auto
    qed
  qed
  with Inr show ?thesis unfolding r_def by (simp add: Let_def)
qed


text \<open>A payload without key: the store assigns the key 3, under which the entity is found.\<close>

theorem create_then_get_witness:
  "create engine_stub user_validate user_store_check count_key user_dao
     \<lparr> attrs = [(''name'', VStr ''carl''), (''age'', VInt 7)], fields_set = [''name'', ''age''] \<rparr>
     two_users
     = Inr ([(''id'', VInt 3), (''name'', VStr ''carl''), (''age'', VInt 7)],
            Map.empty(''user'' \<mapsto>
               [[(''id'', VInt 1), (''name'', VStr ''ann''), (''age'', VNone)],
                [(''id'', VInt 2), (''name'', VStr ''bob''), (''age'', VInt 3)],
                [(''id'', VInt 3), (''name'', VStr ''carl''), (''age'', VInt 7)]]))
   \<and> get_by_id engine_stub user_dao (VInt 3)
       (Map.empty(''user'' \<mapsto>
               [[(''id'', VInt 1), (''name'', VStr ''ann''), (''age'', VNone)],
                [(''id'', VInt 2), (''name'', VStr ''bob''), (''age'', VInt 3)],
                [(''id'', VInt 3), (''name'', VStr ''carl''), (''age'', VInt 7)]]))
     = Inr (Some [(''id'', VInt 3), (''name'', VStr ''carl''), (''age'', VInt 7)])"
  using create_then_get [where create_engine = engine_stub and self = user_dao
      and engine = "(''sqlite://'', False)" and db = two_users
      and tbl = "[[(''id'', VInt 1), (''name'', VStr ''ann''), (''age'', VNone)],
                  [(''id'', VInt 2), (''name'', VStr ''bob''), (''age'', VInt 3)]]"
      and model_validate = user_validate and store_check = user_store_check
      and next_key = count_key
      and obj_create = "\<lparr> attrs = [(''name'', VStr ''carl''), (''age'', VInt 7)],
                           fields_set = [''name'', ''age''] \<rparr>"]
  by (simp add: create_def get_by_id_def get_engine_def database_url_def engine_stub_def
      user_dao_def User_model_def two_users_def SQLConnection_init_def session_get_def
      session_add_commit_def session_refresh_def pk_constraint_def keyed_def
      user_validate_def user_store_check_def fits_int64_def count_key_def row_key_def Let_def)

subsection \<open>Listing\<close>





subsection \<open>The primary-key constraint as an invariant\<close>

text \<open>
  The constraint holds of the empty table, and every operation that returns leaves it
  in force: the states that the operations can reach from empty tables satisfy it.
\<close>

lemma pk_constraint_empty: "pk_constraint M []"
  by (simp add: pk_constraint_def)

lemma pk_constraint_create:
  assumes "create create_engine model_validate store_check next_key self p db = Inr (r, db')"
  shows "\<exists>tbl'. db' (tablename (model self)) = Some tbl' \<and> pk_constraint (model self) tbl'"
  using create_appends [OF assms] by auto

lemma session_update_commit_table:
  "session_update_commit store_check M k r db = Inr db'
     \<Longrightarrow> \<exists>tbl'. db' = db(tablename M \<mapsto> tbl') \<and> pk_constraint M tbl'"
  by (auto simp: session_update_commit_def Let_def split: option.splits if_splits)

lemma update_cases:
  assumes "update create_engine store_check self k p db = Inr (x, db')"
  shows "db' = db \<or> (\<exists>tbl'. db' = db(tablename (model self) \<mapsto> tbl')
                          \<and> pk_constraint (model self) tbl')"
proof (cases "session_get (model self) k db")
  case (Inl e)
  with assms show ?thesis by (auto simp: update_def split: sum.splits)
next
  case (Inr found)
  show ?thesis
  proof (cases found)
    case None
    with Inr assms show ?thesis by (auto simp: update_def split: sum.splits)
  next
    case (Some old)
    with Inr assms obtain r where
      "session_update_commit store_check (model self) k r db = Inr db'"
      by (auto simp: update_def Let_def split: sum.splits)
    from session_update_commit_table [OF this] show ?thesis by blast
  qed
qed

lemma pk_constraint_update:
  assumes "db (tablename (model self)) = Some tbl" and "pk_constraint (model self) tbl"
    and "update create_engine store_check self k p db = Inr (x, db')"
  shows "\<exists>tbl'. db' (tablename (model self)) = Some tbl' \<and> pk_constraint (model self) tbl'"
  using update_cases [OF assms(3)] assms(1,2) by auto

lemma pk_constraint_filter: "pk_constraint M tbl \<Longrightarrow> pk_constraint M (filter P tbl)"
  by (simp add: pk_constraint_def distinct_map_filter list_all_iff)

lemma delete_cases:
  assumes "delete create_engine self k db = Inr (x, db')"
  shows "db' = db \<or> db' = session_delete_commit (model self) k db"
proof (cases "session_get (model self) k db")
  case (Inl e)
  with assms show ?thesis by (auto simp: delete_def split: sum.splits)
next
  case (Inr found)
  with assms show ?thesis by (cases found) (auto simp: delete_def split: sum.splits)
qed

lemma pk_constraint_delete:
  assumes "db (tablename (model self)) = Some tbl" and "pk_constraint (model self) tbl"
    and "delete create_engine self k db = Inr (x, db')"
  shows "\<exists>tbl'. db' (tablename (model self)) = Some tbl' \<and> pk_constraint (model self) tbl'"
  using delete_cases [OF assms(3)] assms(1,2)
  by (auto simp: session_delete_commit_def pk_constraint_filter)

subsection \<open>Construction and the bound model\<close>

lemma parameterisations_simps:
  "parameterisations [] = []"
  "parameterisations (b # bs) =
     (if get_origin b = Some BaseModelDAO then get_args b # parameterisations bs
      else parameterisations bs)"
  by (simp_all add: parameterisations_def)

lemma find_model_binding:
  "find_model name bases =
     (case parameterisations bases of
        [] \<Rightarrow> Inl (TypeError (''Could not determine ModelType for '' @ name))
      | args # _ \<Rightarrow>
          (if length args \<noteq> 3 then Inl (TypeError ''BaseModelDAO requires 3 type arguments'')
           else Inr (args ! 0)))"
  by (induction bases) (simp_all add: parameterisations_simps Let_def)

lemma length_3: "(length args = 3) = (\<exists>m c u. args = [m, c, u])"
  by (cases args; simp; cases "tl args"; simp; cases "tl (tl args)"; auto)

lemma find_model_skip:
  "\<forall>b\<in>set pre. get_origin b \<noteq> Some BaseModelDAO
     \<Longrightarrow> find_model name (pre @ rest) = find_model name rest"
  by (induction pre) auto

lemma init_binding:
  "case binding_of cls of
     None \<Rightarrow> \<exists>msg. BaseModelDAO_init cls getenv = Inl (TypeError msg)
   | Some (m, c, u) \<Rightarrow>
       BaseModelDAO_init cls getenv
         = Inr \<lparr> model = m, sql_connection = SQLConnection_init getenv \<rparr>"
proof (cases "parameterisations (orig_bases cls)")
  case Nil
  then show ?thesis
    by (simp add: binding_of_def BaseModelDAO_init_def find_model_binding)
next
  case (Cons args rest)
  show ?thesis
  proof (cases "length args = 3")
    case True
    then obtain m c u where "args = [m, c, u]"
      unfolding length_3 by blast
    with Cons show ?thesis
      by (simp add: binding_of_def BaseModelDAO_init_def find_model_binding)
  next
    case False
    then have "(case args of [m, c, u] \<Rightarrow> Some (m, c, u) | _ \<Rightarrow> None) = None"
      by (auto split: list.splits)
    with Cons False show ?thesis
      by (simp add: binding_of_def BaseModelDAO_init_def find_model_binding)
  qed
qed

lemma init_no_base:
  assumes "\<forall>b\<in>set (orig_bases cls). get_origin b \<noteq> Some BaseModelDAO"
  shows "BaseModelDAO_init cls getenv
           = Inl (TypeError (''Could not determine ModelType for '' @ class_name cls))"
  using find_model_skip [OF assms, of "class_name cls" "[]"]
  by (simp add: BaseModelDAO_init_def)

lemma init_wrong_arity:
  assumes "orig_bases cls = pre @ Alias BaseModelDAO args # post"
    and "\<forall>b\<in>set pre. get_origin b \<noteq> Some BaseModelDAO"
    and "length args \<noteq> 3"
  shows "BaseModelDAO_init cls getenv = Inl (TypeError ''BaseModelDAO requires 3 type arguments'')"
  using find_model_skip [OF assms(2), of "class_name cls" "Alias BaseModelDAO args # post"]
    assms(1,3)
  by (simp add: BaseModelDAO_init_def)

lemma create_frame:
  "create create_engine model_validate store_check next_key self p db = Inr (r, db')
     \<Longrightarrow> t \<noteq> tablename (model self) \<Longrightarrow> db' t = db t"
  using create_appends [of create_engine model_validate store_check next_key self p db r db']
  by auto

lemma update_frame:
  "update create_engine store_check self k p db = Inr (x, db')
     \<Longrightarrow> t \<noteq> tablename (model self) \<Longrightarrow> db' t = db t"
  using update_cases [of create_engine store_check self k p db x db'] by auto

lemma delete_frame:
  "delete create_engine self k db = Inr (x, db') \<Longrightarrow> t \<noteq> tablename (model self)
     \<Longrightarrow> db' t = db t"
  using delete_cases [of create_engine self k db x db']
  by (auto simp: session_delete_commit_def split: option.splits)

lemma reads_local:
  "db (tablename (model self)) = db2 (tablename (model self)) \<Longrightarrow>
     get_all create_engine rank self db = get_all create_engine rank self db2
     \<and> get_by_id create_engine self k db = get_by_id create_engine self k db2"
  by (cases "get_engine create_engine (sql_connection self) False")
     (simp_all add: get_all_def get_by_id_def select_all_def session_get_def)

text \<open>
  Claim C2. A class without Binding cannot be constructed: \<open>__init__\<close> raises a
  \<open>TypeError\<close> and no instance exists on which an operation could run. This is so in
  particular when no base instantiates \<open>BaseModelDAO\<close>, as for a subclass of the
  unparameterised \<open>BaseModelDAO\<close>, and when the first base that does has other than
  three type arguments. A class with a Binding gives an instance whose \<open>model\<close> is the
  first type parameter. Every operation of an instance works on the table of its
  \<open>model\<close> only: the two reading operations depend on no other table, and the three
  writing operations change no other table.
\<close>

theorem binding_error_or_bound:
  fixes cls :: "'c pyclass" and self :: "sqlmodel dao"
  shows "(case binding_of cls of
            None \<Rightarrow> \<exists>msg. BaseModelDAO_init cls getenv = Inl (TypeError msg)
          | Some (m, c, u) \<Rightarrow>
              BaseModelDAO_init cls getenv
                = Inr \<lparr> model = m, sql_connection = SQLConnection_init getenv \<rparr>)
         \<and> ((\<forall>b\<in>set (orig_bases cls). get_origin b \<noteq> Some BaseModelDAO) \<longrightarrow>
               BaseModelDAO_init cls getenv
                 = Inl (TypeError (''Could not determine ModelType for '' @ class_name cls)))
         \<and> (\<forall>pre args post.
               orig_bases cls = pre @ Alias BaseModelDAO args # post
               \<and> (\<forall>b\<in>set pre. get_origin b \<noteq> Some BaseModelDAO) \<and> length args \<noteq> 3 \<longrightarrow>
               BaseModelDAO_init cls getenv
                 = Inl (TypeError ''BaseModelDAO requires 3 type arguments''))
         \<and> (\<forall>db db2 k.
               db (tablename (model self)) = db2 (tablename (model self)) \<longrightarrow>
               get_all create_engine rank self db = get_all create_engine rank self db2
               \<and> get_by_id create_engine self k db = get_by_id create_engine self k db2)
         \<and> (\<forall>db db' t p r.
               create create_engine model_validate store_check next_key self p db = Inr (r, db')
               \<and> t \<noteq> tablename (model self) \<longrightarrow> db' t = db t)
         \<and> (\<forall>db db' t k p x.
               update create_engine store_check self k p db = Inr (x, db')
               \<and> t \<noteq> tablename (model self) \<longrightarrow> db' t = db t)
         \<and> (\<forall>db db' t k x.
               delete create_engine self k db = Inr (x, db')
               \<and> t \<noteq> tablename (model self) \<longrightarrow> db' t = db t)"
proof -
  have 1: "case binding_of cls of
             None \<Rightarrow> \<exists>msg. BaseModelDAO_init cls getenv = Inl (TypeError msg)
           | Some (m, c, u) \<Rightarrow>
               BaseModelDAO_init cls getenv
                 = Inr \<lparr> model = m, sql_connection = SQLConnection_init getenv \<rparr>"
    by (rule init_binding)
  have 2: "(\<forall>b\<in>set (orig_bases cls). get_origin b \<noteq> Some BaseModelDAO) \<longrightarrow>
             BaseModelDAO_init cls getenv
               = Inl (TypeError (''Could not determine ModelType for '' @ class_name cls))"
    by (simp add: init_no_base)
  have 3: "\<forall>pre args post.
             orig_bases cls = pre @ Alias BaseModelDAO args # post
             \<and> (\<forall>b\<in>set pre. get_origin b \<noteq> Some BaseModelDAO) \<and> length args \<noteq> 3 \<longrightarrow>
             BaseModelDAO_init cls getenv
               = Inl (TypeError ''BaseModelDAO requires 3 type arguments'')"
  proof (intro allI impI, elim conjE)
    fix pre args post
    assume "orig_bases cls = pre @ Alias BaseModelDAO args # post"
      and "\<forall>b\<in>set pre. get_origin b \<noteq> Some BaseModelDAO" and "length args \<noteq> 3"
    then show "BaseModelDAO_init cls getenv
                 = Inl (TypeError ''BaseModelDAO requires 3 type arguments'')"
      by (rule init_wrong_arity)
  qed
  have 4: "\<forall>db db2 k.
             db (tablename (model self)) = db2 (tablename (model self)) \<longrightarrow>
             get_all create_engine rank self db = get_all create_engine rank self db2
             \<and> get_by_id create_engine self k db = get_by_id create_engine self k db2"
    by (intro allI impI) (rule reads_local)
  have 5: "\<forall>db db' t p r.
             create create_engine model_validate store_check next_key self p db = Inr (r, db')
             \<and> t \<noteq> tablename (model self) \<longrightarrow> db' t = db t"
    by (intro allI impI, elim conjE) (rule create_frame)
  have 6: "\<forall>db db' t k p x.
             update create_engine store_check self k p db = Inr (x, db')
             \<and> t \<noteq> tablename (model self) \<longrightarrow> db' t = db t"
    by (intro allI impI, elim conjE) (rule update_frame)
  have 7: "\<forall>db db' t k x.
             delete create_engine self k db = Inr (x, db')
             \<and> t \<noteq> tablename (model self) \<longrightarrow> db' t = db t"
    by (intro allI impI, elim conjE) (rule delete_frame)
  show ?thesis
    by (intro conjI) (rule 1, rule 2, rule 3, rule 4, rule 5, rule 6, rule 7)
qed

text \<open>
  A subclass of the unparameterised base, which inherits the bases of \<open>BaseModelDAO\<close>
  itself; a base with two type arguments; a base with three; and a deletion in the table
  \<open>user\<close>, which leaves the table \<open>item\<close> as it was.
\<close>

text \<open>
  A subclass of the unparameterised base, which inherits the bases of \<open>BaseModelDAO\<close>
  itself; a base with two type arguments; a base with three; and a deletion in the table
  \<open>user\<close>, which leaves the table \<open>item\<close> as it was.
\<close>

theorem binding_error_or_bound_witness:
  "BaseModelDAO_init
     \<lparr> class_name = ''UserDAO'',
       orig_bases = [Alias Generic [''ModelType'', ''CreateType'', ''UpdateType'']] \<rparr>
     Map.empty
     = Inl (TypeError ''Could not determine ModelType for UserDAO'')
   \<and> BaseModelDAO_init
     \<lparr> class_name = ''UserDAO'',
       orig_bases = [PlainClass ''Mixin'', Alias BaseModelDAO [''User'', ''UserCreate'']] \<rparr>
     Map.empty
     = Inl (TypeError ''BaseModelDAO requires 3 type arguments'')
   \<and> BaseModelDAO_init
     \<lparr> class_name = ''UserDAO'',
       orig_bases = [Alias BaseModelDAO [''User'', ''UserCreate'', ''UserUpdate'']] \<rparr>
     (Map.empty(''URL'' \<mapsto> ''sqlite://''))
     = Inr \<lparr> model = ''User'',
             sql_connection = SQLConnection_init (Map.empty(''URL'' \<mapsto> ''sqlite://'')) \<rparr>
   \<and> (case delete engine_stub user_dao (VInt 1) two_users of
         Inl e \<Rightarrow> False
       | Inr (x, db') \<Rightarrow> db' ''item'' = two_users ''item'')"
proof -
  note t1 = binding_error_or_bound [where
      cls = "\<lparr> class_name = ''UserDAO'',
         orig_bases = [Alias Generic [''ModelType'', ''CreateType'', ''UpdateType'']] \<rparr>"
      and getenv = Map.empty and create_engine = engine_stub and self = user_dao
      and next_key = count_key and rank = by_id and model_validate = user_validate
      and store_check = user_store_check]
  note t2 = binding_error_or_bound [where
      cls = "\<lparr> class_name = ''UserDAO'',
         orig_bases = [PlainClass ''Mixin'', Alias BaseModelDAO [''User'', ''UserCreate'']] \<rparr>"
      and getenv = Map.empty and create_engine = engine_stub and self = user_dao
      and next_key = count_key and rank = by_id and model_validate = user_validate
      and store_check = user_store_check]
  note t3 = binding_error_or_bound [where
      cls = "\<lparr> class_name = ''UserDAO'',
         orig_bases = [Alias BaseModelDAO [''User'', ''UserCreate'', ''UserUpdate'']] \<rparr>"
      and getenv = "Map.empty(''URL'' \<mapsto> ''sqlite://'')" and create_engine = engine_stub
      and self = user_dao and next_key = count_key and rank = by_id
      and model_validate = user_validate and store_check = user_store_check]
  have 1: "BaseModelDAO_init
     \<lparr> class_name = ''UserDAO'',
       orig_bases = [Alias Generic [''ModelType'', ''CreateType'', ''UpdateType'']] \<rparr>
     Map.empty
     = Inl (TypeError ''Could not determine ModelType for UserDAO'')"
    using t1 [THEN conjunct2, THEN conjunct1] by simp
  have 2: "BaseModelDAO_init
     \<lparr> class_name = ''UserDAO'',
       orig_bases = [PlainClass ''Mixin'', Alias BaseModelDAO [''User'', ''UserCreate'']] \<rparr>
     Map.empty
     = Inl (TypeError ''BaseModelDAO requires 3 type arguments'')"
    using t2 [THEN conjunct2, THEN conjunct2, THEN conjunct1, rule_format,
        of "[PlainClass ''Mixin'']" "[''User'', ''UserCreate'']" "[]"]
    by simp
  have 3: "BaseModelDAO_init
     \<lparr> class_name = ''UserDAO'',
       orig_bases = [Alias BaseModelDAO [''User'', ''UserCreate'', ''UserUpdate'']] \<rparr>
     (Map.empty(''URL'' \<mapsto> ''sqlite://''))
     = Inr \<lparr> model = ''User'',
             sql_connection = SQLConnection_init (Map.empty(''URL'' \<mapsto> ''sqlite://'')) \<rparr>"
    using t3 [THEN conjunct1]
    by (simp add: binding_of_def parameterisations_def)
  have d: "delete engine_stub user_dao (VInt 1) two_users
             = Inr (Some True, session_delete_commit User_model (VInt 1) two_users)"
    by (simp add: delete_def get_engine_def database_url_def engine_stub_def
        user_dao_def User_model_def two_users_def SQLConnection_init_def session_get_def
        row_key_def)
  have "''item'' \<noteq> tablename (model user_dao)"
    by (simp add: user_dao_def User_model_def)
  with d t1 have "session_delete_commit User_model (VInt 1) two_users ''item'' = two_users ''item''"
    by blast
  with d have 4: "case delete engine_stub user_dao (VInt 1) two_users of
         Inl e \<Rightarrow> False
       | Inr (x, db') \<Rightarrow> db' ''item'' = two_users ''item''"
    by simp
  from 1 2 3 4 show ?thesis by (intro conjI)
qed

end
